theory Spec2Isabelle
  imports Complex_Main
begin

section \<open>Data model of \<open>domainchecks/models.py\<close>\<close>

text \<open>
  A \<open>datetime\<close> is a count of microseconds since the epoch and a \<open>timedelta\<close> a count of
  microseconds; \<open>now()\<close> is an argument of every query that calls it. A nullable column is
  an \<open>option\<close>, \<open>None\<close> being SQL's NULL. A \<open>PositiveIntegerField\<close> is a \<open>nat\<close>. A
  \<open>FloatField\<close> and the double precision value of \<open>100.0\<close> are idealised as \<open>real\<close>: the
  rounding of floating-point division is not modelled.
\<close>

type_synonym datetime = int
type_synonym timedelta = int

definition timedelta_hours :: "int \<Rightarrow> timedelta" where
  "timedelta_hours h = h * 3600000000"

text \<open>The default argument \<open>cutoff=datetime.timedelta(hours=1)\<close> of \<open>stale\<close> and \<open>status\<close>.\<close>

definition default_cutoff :: timedelta where
  "default_cutoff = timedelta_hours 1"

text \<open>Class \<open>DomainCheck\<close>; \<open>pk\<close> is the automatic primary key \<open>id\<close>, and \<open>http_method\<close> is
  the field \<open>method\<close>.\<close>

record DomainCheck =
  pk :: nat
  domain :: string
  path :: string
  protocol :: string
  http_method :: string
  is_active :: bool

text \<open>Class \<open>CheckResult\<close>; \<open>domain_check\<close> holds the primary key of the referenced check.\<close>

record CheckResult =
  domain_check :: nat
  checked_on :: datetime
  status_code :: "nat option"
  response_time :: "real option"
  response_body :: string

definition PROTOCOL_HTTP :: string where "PROTOCOL_HTTP = ''http''"
definition PROTOCOL_HTTPS :: string where "PROTOCOL_HTTPS = ''https''"
definition METHOD_GET :: string where "METHOD_GET = ''get''"
definition METHOD_POST :: string where "METHOD_POST = ''post''"

section \<open>The SQL expressions the query builder emits\<close>

text \<open>
  Comparisons are three-valued: a comparison with NULL is NULL (\<open>None\<close>), and a \<open>WHERE\<close>
  or a \<open>WHEN\<close> accepts a row only when its condition is TRUE.
\<close>

definition sql_gte :: "'a::linorder option \<Rightarrow> 'a option \<Rightarrow> bool option" where
  "sql_gte a b = (case a of None \<Rightarrow> None | Some x \<Rightarrow> (case b of None \<Rightarrow> None | Some y \<Rightarrow> Some (y \<le> x)))"

definition sql_lte :: "'a::linorder option \<Rightarrow> 'a option \<Rightarrow> bool option" where
  "sql_lte a b = (case a of None \<Rightarrow> None | Some x \<Rightarrow> (case b of None \<Rightarrow> None | Some y \<Rightarrow> Some (x \<le> y)))"

definition sql_gt :: "'a::linorder option \<Rightarrow> 'a option \<Rightarrow> bool option" where
  "sql_gt a b = (case a of None \<Rightarrow> None | Some x \<Rightarrow> (case b of None \<Rightarrow> None | Some y \<Rightarrow> Some (y < x)))"

definition sql_lt :: "'a::linorder option \<Rightarrow> 'a option \<Rightarrow> bool option" where
  "sql_lt a b = (case a of None \<Rightarrow> None | Some x \<Rightarrow> (case b of None \<Rightarrow> None | Some y \<Rightarrow> Some (x < y)))"

fun sql_and :: "bool option \<Rightarrow> bool option \<Rightarrow> bool option" where
  "sql_and (Some False) _ = Some False"
| "sql_and _ (Some False) = Some False"
| "sql_and (Some True) (Some True) = Some True"
| "sql_and _ _ = None"

fun sql_or :: "bool option \<Rightarrow> bool option \<Rightarrow> bool option" where
  "sql_or (Some True) _ = Some True"
| "sql_or _ (Some True) = Some True"
| "sql_or (Some False) (Some False) = Some False"
| "sql_or _ _ = None"

definition sql_isnull :: "'a option \<Rightarrow> bool option" where
  "sql_isnull a = Some (a = None)"

text \<open>The lookup \<open>__range=(lo, hi)\<close> is \<open>BETWEEN lo AND hi\<close>, inclusive at both ends.\<close>

definition sql_range :: "'a::linorder option \<Rightarrow> 'a option \<times> 'a option \<Rightarrow> bool option" where
  "sql_range a b = sql_and (sql_gte a (fst b)) (sql_lte a (snd b))"

definition sql_true :: "bool option \<Rightarrow> bool" where
  "sql_true b = (b = Some True)"

text \<open>
  \<open>Case(When(c1, then=v1), ...)\<close> with no \<open>default\<close>: the value of the first branch whose
  condition is TRUE, and NULL when there is none.
\<close>

fun sql_case :: "(bool option \<times> 'a option) list \<Rightarrow> 'a option" where
  "sql_case [] = None"
| "sql_case ((c, v) # ws) = (if sql_true c then v else sql_case ws)"

text \<open>\<open>Count(e)\<close> counts the rows where \<open>e\<close> is not NULL; \<open>Max(e)\<close> ignores NULLs and is NULL
  when no row has a value.\<close>

definition sql_count :: "'a option list \<Rightarrow> nat" where
  "sql_count vs = length (filter (\<lambda>v. v \<noteq> None) vs)"

fun sql_max :: "'a::linorder option list \<Rightarrow> 'a option" where
  "sql_max [] = None"
| "sql_max (None # vs) = sql_max vs"
| "sql_max (Some v # vs) = (case sql_max vs of None \<Rightarrow> Some v | Some m \<Rightarrow> Some (max v m))"

definition sql_mul :: "real option \<Rightarrow> real option \<Rightarrow> real option" where
  "sql_mul a b = (case a of None \<Rightarrow> None | Some x \<Rightarrow> (case b of None \<Rightarrow> None | Some y \<Rightarrow> Some (x * y)))"

text \<open>
  Modelled from the spec: the division operator of the database engine, which is not part
  of the repository. Its value at a zero divisor is taken from the spec (``success_rate =
  null'' when pings = 0), which is also what the branch \<open>success_rate__isnull=True\<close> of the
  source is written for, and what SQLite and MySQL do; an engine that raises on a zero
  divisor (PostgreSQL) is outside this model.
\<close>

definition sql_div :: "real option \<Rightarrow> real option \<Rightarrow> real option" where
  "sql_div a b = (case a of None \<Rightarrow> None | Some x \<Rightarrow>
     (case b of None \<Rightarrow> None | Some y \<Rightarrow> if y = 0 then None else Some (x / y)))"

section \<open>The join on \<open>checkresult\<close>\<close>

text \<open>
  Every annotation of \<open>stale\<close> and \<open>status\<close> names the reverse relation \<open>checkresult\<close>, so
  the query has one \<open>LEFT OUTER JOIN\<close> on it, grouped by check: a check with results
  contributes one row per result, a check with none contributes one row of NULLs.
\<close>

record joined_row =
  checkresult__checked_on :: "datetime option"
  checkresult__status_code :: "nat option"

definition results_of :: "CheckResult list \<Rightarrow> DomainCheck \<Rightarrow> CheckResult list" where
  "results_of results c = filter (\<lambda>r. domain_check r = pk c) results"

definition checkresult_join :: "CheckResult list \<Rightarrow> DomainCheck \<Rightarrow> joined_row list" where
  "checkresult_join results c =
     (case results_of results c of
        [] \<Rightarrow> [\<lparr>checkresult__checked_on = None, checkresult__status_code = None\<rparr>]
      | r # rs \<Rightarrow> map (\<lambda>r. \<lparr>checkresult__checked_on = Some (checked_on r),
                             checkresult__status_code = status_code r\<rparr>) (r # rs))"

section \<open>\<open>DomainCheckQuerySet\<close>\<close>

text \<open>A queryset is the list of its rows; the \<open>checkresult\<close> table is an argument of the
  methods that join on it.\<close>

definition active :: "DomainCheck list \<Rightarrow> DomainCheck list" where
  "active self = filter (\<lambda>c. is_active c = True) self"

text \<open>Rows annotated with \<open>last_check\<close>, and their extension by the annotations of \<open>status\<close>
  (the annotation named \<open>status\<close> in the source is the field \<open>status_value\<close>).\<close>

record annotated =
  obj :: DomainCheck
  last_check :: "datetime option"

record status_row = annotated +
  successes :: nat
  pings :: nat
  success_rate :: "int option"
  status_value :: "string option"

text \<open>
  \<open>stale\<close>: \<open>end_time = now() - cutoff\<close>; every check is annotated with
  \<open>last_check = Max('checkresult__checked_on')\<close>, and \<open>stale_filter\<close> is the filter
  \<open>Q(last_check__lt=end_time) | Q(last_check__isnull=True)\<close>.
\<close>

definition stale_filter :: "datetime \<Rightarrow> annotated \<Rightarrow> bool" where
  "stale_filter end_time a =
     sql_true (sql_or (sql_lt (last_check a) (Some end_time)) (sql_isnull (last_check a)))"

definition stale :: "datetime \<Rightarrow> timedelta \<Rightarrow> CheckResult list \<Rightarrow> DomainCheck list \<Rightarrow> annotated list" where
  "stale now cutoff results self =
     (let end_time = now - cutoff in
      filter (stale_filter end_time)
        (map (\<lambda>c. \<lparr>obj = c,
                    last_check = sql_max (map checkresult__checked_on (checkresult_join results c))\<rparr>)
           self))"

text \<open>
  \<open>status\<close>: \<open>start_time = now() - cutoff\<close>; \<open>ping\<close> and \<open>success\<close> are the two \<open>Q\<close> objects
  (the keyword arguments of a \<open>Q\<close> are joined by AND), \<open>classify\<close> is the \<open>Case\<close> of the last
  \<open>annotate\<close>, and \<open>status_annotate\<close> is the row the three \<open>annotate\<close> calls produce for one
  check of the queryset: \<open>Count(Case(When(q, then=1)))\<close> counts the joined rows where \<open>q\<close>
  is TRUE, \<open>rate\<close> is the value of \<open>F('successes') * 100.0 / F('pings')\<close> in the database,
  and \<open>success_rate\<close> is what the row returns for it.
\<close>

definition ping :: "datetime \<Rightarrow> joined_row \<Rightarrow> bool option" where
  "ping start_time row = sql_gte (checkresult__checked_on row) (Some start_time)"

definition success :: "datetime \<Rightarrow> joined_row \<Rightarrow> bool option" where
  "success start_time row =
     sql_and (sql_gte (checkresult__checked_on row) (Some start_time))
             (sql_range (checkresult__status_code row) (Some 200, Some 299))"

definition classify :: "real option \<Rightarrow> string option" where
  "classify rate =
     sql_case [(sql_gt rate (Some 90), Some ''good''),
               (sql_range rate (Some 75, Some 90), Some ''fair''),
               (sql_lt rate (Some 75), Some ''poor''),
               (sql_isnull rate, Some ''unknown'')]"

text \<open>
  What an annotation returns in Python: the value the database sends is converted by the
  output field of the annotation. No \<open>output_field\<close> is given for \<open>success_rate\<close>, so the
  field of its operands is taken, the \<open>IntegerField\<close> of \<open>Count\<close>, and the value goes
  through \<open>int()\<close>, which truncates towards zero; NULL stays \<open>None\<close>. The \<open>Case\<close> of the
  annotation \<open>status\<close> is evaluated by the database, on the value before this conversion.
\<close>

definition py_int :: "real \<Rightarrow> int" where
  "py_int v = (if 0 \<le> v then \<lfloor>v\<rfloor> else \<lceil>v\<rceil>)"

definition convert_value :: "real option \<Rightarrow> int option" where
  "convert_value v = (case v of None \<Rightarrow> None | Some x \<Rightarrow> Some (py_int x))"

definition status_annotate :: "datetime \<Rightarrow> timedelta \<Rightarrow> CheckResult list \<Rightarrow> DomainCheck \<Rightarrow> status_row" where
  "status_annotate now cutoff results c =
     (let start_time = now - cutoff;
          rows = checkresult_join results c;
          n_successes = sql_count (map (\<lambda>row. sql_case [(success start_time row, Some (1::nat))]) rows);
          n_pings = sql_count (map (\<lambda>row. sql_case [(ping start_time row, Some (1::nat))]) rows);
          rate = sql_div (sql_mul (Some (real n_successes)) (Some 100.0)) (Some (real n_pings))
      in \<lparr>obj = c,
          last_check = sql_max (map checkresult__checked_on rows),
          successes = n_successes,
          pings = n_pings,
          success_rate = convert_value rate,
          status_value = classify rate\<rparr>)"

definition status :: "datetime \<Rightarrow> timedelta \<Rightarrow> CheckResult list \<Rightarrow> DomainCheck list \<Rightarrow> status_row list" where
  "status now cutoff results self = map (status_annotate now cutoff results) self"

text \<open>
  \<open>objects = DomainCheckQuerySet.as_manager()\<close>: the manager call
  \<open>DomainCheck.objects.active()\<close> evaluated against a database. The query is one
  \<open>SELECT\<close>; the database is passed through so that its effect on the stored tables can be
  stated.
\<close>

record database =
  domainchecks :: "DomainCheck list"
  checkresults :: "CheckResult list"

definition objects_active :: "database \<Rightarrow> DomainCheck list \<times> database" where
  "objects_active db = (active (domainchecks db), db)"

section \<open>\<open>DomainCheck\<close>: construction and \<open>url\<close>\<close>

text \<open>
  The constructor of the model class: \<open>domain\<close> and \<open>path\<close> declare no default and are
  given; a field that declares one may be left out (\<open>None\<close>) and then takes its declared
  default: \<open>PROTOCOL_HTTP\<close>, \<open>METHOD_GET\<close> and \<open>True\<close>.
\<close>

definition DomainCheck_init ::
  "nat \<Rightarrow> string \<Rightarrow> string \<Rightarrow> string option \<Rightarrow> string option \<Rightarrow> bool option \<Rightarrow> DomainCheck" where
  "DomainCheck_init i d p proto meth act =
     \<lparr>pk = i, domain = d, path = p,
      protocol = (case proto of None \<Rightarrow> PROTOCOL_HTTP | Some v \<Rightarrow> v),
      http_method = (case meth of None \<Rightarrow> METHOD_GET | Some v \<Rightarrow> v),
      is_active = (case act of None \<Rightarrow> True | Some v \<Rightarrow> v)\<rparr>"

text \<open>
  \<open>str.format\<close> with keyword arguments that are strings, for templates made of literal
  text, the escapes \<open>{{\<close> and \<open>}}\<close>, and replacement fields \<open>{name}\<close>. A field whose name is
  not a keyword argument is a \<open>KeyError\<close>, an unmatched brace a \<open>ValueError\<close>. Conversion
  flags, format specifications, attribute or index access and positional fields do not
  occur in the templates of the source and are not distinguished from plain names. An
  inserted value is never scanned again.
\<close>

datatype format_error = KeyError string | ValueError

datatype format_state = Text | Field string | Close

definition emit :: "string \<Rightarrow> format_error + string \<Rightarrow> format_error + string" where
  "emit s rest = (case rest of Inl e \<Rightarrow> Inl e | Inr t \<Rightarrow> Inr (s @ t))"

fun format_go :: "(string \<times> string) list \<Rightarrow> format_state \<Rightarrow> string \<Rightarrow> format_error + string" where
  "format_go kwargs Text [] = Inr []"
| "format_go kwargs (Field name) [] = Inl ValueError"
| "format_go kwargs Close [] = Inl ValueError"
| "format_go kwargs Text (c # cs) =
     (if c = CHR ''{'' then format_go kwargs (Field []) cs
      else if c = CHR ''}'' then format_go kwargs Close cs
      else emit [c] (format_go kwargs Text cs))"
| "format_go kwargs Close (c # cs) =
     (if c = CHR ''}'' then emit [c] (format_go kwargs Text cs) else Inl ValueError)"
| "format_go kwargs (Field name) (c # cs) =
     (if c = CHR ''{'' \<and> name = [] then emit [c] (format_go kwargs Text cs)
      else if c = CHR ''}'' then
        (case map_of kwargs name of
           None \<Rightarrow> Inl (KeyError name)
         | Some v \<Rightarrow> emit v (format_go kwargs Text cs))
      else format_go kwargs (Field (name @ [c])) cs)"

definition str_format :: "string \<Rightarrow> (string \<times> string) list \<Rightarrow> format_error + string" where
  "str_format template kwargs = format_go kwargs Text template"

definition url :: "DomainCheck \<Rightarrow> format_error + string" where
  "url self = str_format ''{protocol}://{domain}{path}''
     [(''protocol'', protocol self), (''domain'', domain self), (''path'', path self)]"

section \<open>The Status Evaluator as the spec words it\<close>

text \<open>
  The spec's success test (``status_code in [200,299]'') and its scoring window
  (``checked_on within [now - window, now]''), closed at both ends, with the count of
  results in it. They are compared below with what \<open>status\<close> computes.
\<close>

definition spec_success :: "CheckResult \<Rightarrow> bool" where
  "spec_success r = (case status_code r of None \<Rightarrow> False | Some s \<Rightarrow> 200 \<le> s \<and> s \<le> 299)"

definition spec_in_window :: "datetime \<Rightarrow> timedelta \<Rightarrow> CheckResult \<Rightarrow> bool" where
  "spec_in_window now window r = (now - window \<le> checked_on r \<and> checked_on r \<le> now)"

definition spec_pings :: "datetime \<Rightarrow> timedelta \<Rightarrow> CheckResult list \<Rightarrow> DomainCheck \<Rightarrow> nat" where
  "spec_pings now window results c =
     length (filter (spec_in_window now window) (results_of results c))"

section \<open>Example data\<close>

text \<open>
  The check of the spec's Scenario A under a given primary key, a probe result at a given
  time with a given outcome (\<open>None\<close>: transport failure), and three result tables. The
  examples evaluate the queries at \<open>now = 10000000000\<close> with the default cutoff, so the
  window starts at \<open>6400000000\<close>. \<open>scenario_B\<close> is the spec's Scenario B: ten probes in the
  window, nine successful and one timeout; \<open>ten_of_eleven\<close> has eleven, ten successful. \<open>mixed_results\<close> has, for check 11, a result
  just before the window, one exactly at its start, a failure, a 404 and a result later
  than \<open>now\<close>, and a result of check 12. \<open>old_results\<close> has only results from before the
  window for check 11, a result at the start of the window for check 12, and none for
  check 13.
\<close>

definition example_check :: "nat \<Rightarrow> DomainCheck" where
  "example_check i = \<lparr>pk = i, domain = ''example.com'', path = ''/health'',
                      protocol = ''https'', http_method = ''get'', is_active = True\<rparr>"

definition probe_result :: "nat \<Rightarrow> datetime \<Rightarrow> nat option \<Rightarrow> CheckResult" where
  "probe_result i t s = \<lparr>domain_check = i, checked_on = t, status_code = s,
                         response_time = (case s of None \<Rightarrow> None | Some _ \<Rightarrow> Some 0.12),
                         response_body = ''''\<rparr>"

definition scenario_B :: "CheckResult list" where
  "scenario_B =
     [probe_result 11 6400000000 (Some 200), probe_result 11 6800000000 (Some 200),
      probe_result 11 7200000000 (Some 200), probe_result 11 7600000000 (Some 204),
      probe_result 11 8000000000 None, probe_result 11 8400000000 (Some 200),
      probe_result 11 8800000000 (Some 299), probe_result 11 9200000000 (Some 200),
      probe_result 11 9600000000 (Some 200), probe_result 11 10000000000 (Some 200)]"

definition ten_of_eleven :: "CheckResult list" where
  "ten_of_eleven =
     [probe_result 11 6400000000 (Some 200), probe_result 11 6700000000 (Some 200),
      probe_result 11 7000000000 (Some 200), probe_result 11 7300000000 (Some 200),
      probe_result 11 7600000000 (Some 200), probe_result 11 7900000000 None,
      probe_result 11 8200000000 (Some 200), probe_result 11 8500000000 (Some 200),
      probe_result 11 8800000000 (Some 200), probe_result 11 9100000000 (Some 200),
      probe_result 11 9400000000 (Some 200)]"

definition mixed_results :: "CheckResult list" where
  "mixed_results =
     [probe_result 11 6399999999 (Some 200), probe_result 11 6400000000 (Some 200),
      probe_result 12 9000000000 (Some 200), probe_result 11 9000000000 None,
      probe_result 11 9500000000 (Some 404), probe_result 11 10000000001 (Some 200)]"

definition old_results :: "CheckResult list" where
  "old_results =
     [probe_result 11 6399999999 (Some 200), probe_result 11 6000000000 None,
      probe_result 12 6400000000 None, probe_result 12 5000000000 (Some 200)]"

definition three_checks :: "DomainCheck list" where
  "three_checks = [example_check 11, example_check 12, example_check 13]"

section \<open>Properties of the SQL expressions and of the join\<close>

lemma sql_and_Some [simp]: "sql_and (Some a) (Some b) = Some (a \<and> b)"
  by (cases a; cases b) simp_all

lemma sql_and_None_right [simp]: "sql_and (Some a) None = (if a then None else Some False)"
  by (cases a) simp_all

lemma sql_and_None_left [simp]: "sql_and None b = (if b = Some False then Some False else None)"
proof (cases b)
  case None
  then show ?thesis by simp
next
  case (Some x)
  then show ?thesis by (cases x) simp_all
qed

lemma sql_or_Some [simp]: "sql_or (Some a) (Some b) = Some (a \<or> b)"
  by (cases a; cases b) simp_all

lemma sql_or_None_left [simp]: "sql_or None b = (if b = Some True then Some True else None)"
proof (cases b)
  case None
  then show ?thesis by simp
next
  case (Some x)
  then show ?thesis by (cases x) simp_all
qed

lemma sql_max_map_Some:
  "sql_max (map (\<lambda>x. Some (f x)) xs) = (if xs = [] then None else Some (Max (f ` set xs)))"
  by (induction xs) (auto simp: max_def Max_insert split: option.splits)

lemma checkresult_join_eq:
  "checkresult_join results c =
     (if results_of results c = []
      then [\<lparr>checkresult__checked_on = None, checkresult__status_code = None\<rparr>]
      else map (\<lambda>r. \<lparr>checkresult__checked_on = Some (checked_on r),
                      checkresult__status_code = status_code r\<rparr>) (results_of results c))"
  by (simp add: checkresult_join_def split: list.splits)

lemma ping_row [simp]:
  "sql_true (ping t \<lparr>checkresult__checked_on = Some (checked_on r),
                       checkresult__status_code = status_code r\<rparr>) = (t \<le> checked_on r)"
  by (simp add: ping_def sql_gte_def sql_true_def)

lemma ping_null_row [simp]:
  "sql_true (ping t \<lparr>checkresult__checked_on = None, checkresult__status_code = None\<rparr>) = False"
  by (simp add: ping_def sql_gte_def sql_true_def)

lemma success_row [simp]:
  "sql_true (success t \<lparr>checkresult__checked_on = Some (checked_on r),
                       checkresult__status_code = status_code r\<rparr>) = (t \<le> checked_on r \<and> spec_success r)"
  by (auto simp: success_def sql_gte_def sql_lte_def sql_range_def sql_true_def spec_success_def split: option.splits)

lemma success_null_row [simp]:
  "sql_true (success t \<lparr>checkresult__checked_on = None, checkresult__status_code = None\<rparr>) = False"
  by (simp add: success_def sql_gte_def sql_lte_def sql_range_def sql_true_def)

lemma sql_count_when:
  "sql_count (map (\<lambda>row. sql_case [(cond row, Some v)]) rows) = length (filter (\<lambda>row. sql_true (cond row)) rows)"
  by (induction rows) (simp_all add: sql_count_def)

lemma count_join:
  "length (filter P (checkresult_join results c)) =
     (if results_of results c = []
      then (if P \<lparr>checkresult__checked_on = None, checkresult__status_code = None\<rparr> then 1 else 0)
      else length (filter (\<lambda>r. P \<lparr>checkresult__checked_on = Some (checked_on r),
                                    checkresult__status_code = status_code r\<rparr>) (results_of results c)))"
  by (simp add: checkresult_join_eq filter_map o_def)

lemma pings_eq:
  "pings (status_annotate now cutoff results c) =
     length (filter (\<lambda>r. now - cutoff \<le> checked_on r) (results_of results c))"
proof -
  have "pings (status_annotate now cutoff results c) =
          length (filter (\<lambda>row. sql_true (ping (now - cutoff) row)) (checkresult_join results c))"
    by (simp add: status_annotate_def Let_def sql_count_when del: sql_case.simps)
  then show ?thesis
    by (simp add: count_join)
qed

lemma successes_eq:
  "successes (status_annotate now cutoff results c) =
     length (filter (\<lambda>r. now - cutoff \<le> checked_on r \<and> spec_success r) (results_of results c))"
proof -
  have "successes (status_annotate now cutoff results c) =
          length (filter (\<lambda>row. sql_true (success (now - cutoff) row)) (checkresult_join results c))"
    by (simp add: status_annotate_def Let_def sql_count_when del: sql_case.simps)
  then show ?thesis
    by (simp add: count_join)
qed

lemma join_max:
  "sql_max (map checkresult__checked_on (checkresult_join results c)) =
     (if results_of results c = [] then None
      else Some (Max (checked_on ` set (results_of results c))))"
  by (simp add: checkresult_join_eq o_def sql_max_map_Some)

lemma last_check_eq:
  "last_check (status_annotate now cutoff results c) =
     (if results_of results c = [] then None
      else Some (Max (checked_on ` set (results_of results c))))"
  by (simp add: status_annotate_def Let_def join_max)

lemma py_int_quotient: "py_int (real s * 100 / real p) = int (s * 100 div p)"
proof -
  have "\<lfloor>real (s * 100) / real p\<rfloor> = int (s * 100 div p)"
    by (rule floor_divide_of_nat_eq)
  then show ?thesis
    by (simp add: py_int_def)
qed

lemma rate_eq:
  "success_rate (status_annotate now cutoff results c) =
     (if pings (status_annotate now cutoff results c) = 0 then None
      else Some (int (successes (status_annotate now cutoff results c) * 100
                      div pings (status_annotate now cutoff results c))))"
  by (simp add: status_annotate_def Let_def sql_div_def sql_mul_def convert_value_def py_int_quotient)

lemma status_value_eq:
  "status_value (status_annotate now cutoff results c) =
     classify (if pings (status_annotate now cutoff results c) = 0 then None
               else Some (real (successes (status_annotate now cutoff results c)) * 100
                          / real (pings (status_annotate now cutoff results c))))"
  by (simp add: status_annotate_def Let_def sql_div_def sql_mul_def)

lemma classify_Some:
  "classify (Some r) = Some (if r > 90 then ''good'' else if 75 \<le> r \<and> r \<le> 90 then ''fair'' else ''poor'')"
  by (auto simp: classify_def sql_gt_def sql_lt_def sql_range_def sql_gte_def sql_lte_def sql_true_def sql_isnull_def)

lemma classify_None: "classify None = Some ''unknown''"
  by (simp add: classify_def sql_gt_def sql_lt_def sql_range_def sql_gte_def sql_lte_def sql_true_def sql_isnull_def)

lemma status_rows:
  "set (status now cutoff results self) = status_annotate now cutoff results ` set self"
  by (simp add: status_def)

lemma stale_filter_eq:
  "stale_filter end_time \<lparr>obj = c, last_check = l\<rparr> = (case l of None \<Rightarrow> True | Some t \<Rightarrow> t < end_time)"
  by (simp add: stale_filter_def sql_lt_def sql_isnull_def sql_true_def split: option.splits)

lemma stale_rows:
  "set (stale now cutoff results self) =
     {\<lparr>obj = c, last_check = sql_max (map checkresult__checked_on (checkresult_join results c))\<rparr> | c.
        c \<in> set self \<and>
        (results_of results c = [] \<or> Max (checked_on ` set (results_of results c)) < now - cutoff)}"
proof -
  have "set (stale now cutoff results self) =
      {a \<in> (\<lambda>c. \<lparr>obj = c, last_check = sql_max (map checkresult__checked_on (checkresult_join results c))\<rparr>) ` set self.
         stale_filter (now - cutoff) a}"
    by (simp add: stale_def Let_def)
  also have "\<dots> = {\<lparr>obj = c, last_check = sql_max (map checkresult__checked_on (checkresult_join results c))\<rparr> | c.
        c \<in> set self \<and>
        (results_of results c = [] \<or> Max (checked_on ` set (results_of results c)) < now - cutoff)}"
    by (auto simp: stale_filter_eq join_max)
  finally show ?thesis .
qed

lemma filter_conj_le: "length (filter (\<lambda>x. P x \<and> Q x) xs) \<le> length (filter P xs)"
  by (induction xs) auto

lemma successes_le_pings:
  "successes (status_annotate now cutoff results c) \<le> pings (status_annotate now cutoff results c)"
  by (simp add: pings_eq successes_eq filter_conj_le)

lemma results_of_simps:
  "results_of [] c = []"
  "results_of (r # rs) c = (if domain_check r = pk c then r # results_of rs c else results_of rs c)"
  by (simp_all add: results_of_def)

lemma emit_Inr: "emit s (Inr t) = Inr (s @ t)"
  by (simp add: emit_def)

lemmas example_defs =
  example_check_def probe_result_def results_of_simps default_cutoff_def timedelta_hours_def

section \<open>The claims\<close>

subsection \<open>C1: classification thresholds\<close>

text \<open>
  The database evaluates the \<open>Case\<close> on the quotient \<open>successes * 100.0 / pings\<close>: with at
  least one ping the annotation \<open>status\<close> is \<open>good\<close> above 90, \<open>fair\<close> from 75 to 90 (both
  included) and \<open>poor\<close> below 75, the test for \<open>good\<close> coming first.
\<close>

lemma status_value_thresholds:
  assumes "0 < pings (status_annotate now cutoff results c)"
  shows "status_value (status_annotate now cutoff results c) =
           Some (let q = real (successes (status_annotate now cutoff results c)) * 100
                         / real (pings (status_annotate now cutoff results c))
                 in if q > 90 then ''good''
                    else if 75 \<le> q \<and> q \<le> 90 then ''fair''
                    else ''poor'')"
  using assms by (simp add: status_value_eq classify_Some Let_def)

text \<open>
  C1 says that the classification is decided by \<open>success_rate\<close>, a \<open>success_rate\<close> of exactly
  90 being \<open>fair\<close>. The \<open>success_rate\<close> that \<open>status\<close> returns is the quotient truncated to an
  integer, while the classification is made on the quotient itself. With ten successes
  among eleven results in the window the quotient is 90.9...: the row has \<open>success_rate\<close> 90
  and is \<open>good\<close>. With nine among ten (the spec's Scenario B) the row has \<open>success_rate\<close> 90
  as well and is \<open>fair\<close>.
\<close>

theorem status_truncated_rate_90_is_good_and_fair:
  "pings (status_annotate 10000000000 default_cutoff ten_of_eleven (example_check 11)) = 11 \<and>
   successes (status_annotate 10000000000 default_cutoff ten_of_eleven (example_check 11)) = 10 \<and>
   success_rate (status_annotate 10000000000 default_cutoff ten_of_eleven (example_check 11)) = Some 90 \<and>
   status_value (status_annotate 10000000000 default_cutoff ten_of_eleven (example_check 11)) = Some ''good'' \<and>
   pings (status_annotate 10000000000 default_cutoff scenario_B (example_check 11)) = 10 \<and>
   successes (status_annotate 10000000000 default_cutoff scenario_B (example_check 11)) = 9 \<and>
   success_rate (status_annotate 10000000000 default_cutoff scenario_B (example_check 11)) = Some 90 \<and>
   status_value (status_annotate 10000000000 default_cutoff scenario_B (example_check 11)) = Some ''fair''"
proof -
  have p: "pings (status_annotate 10000000000 default_cutoff ten_of_eleven (example_check 11)) = 11"
    by (simp add: pings_eq ten_of_eleven_def example_defs)
  have s: "successes (status_annotate 10000000000 default_cutoff ten_of_eleven (example_check 11)) = 10"
    by (simp add: successes_eq spec_success_def ten_of_eleven_def example_defs)
  have r: "success_rate (status_annotate 10000000000 default_cutoff ten_of_eleven (example_check 11)) = Some 90"
    by (simp add: rate_eq p s)
  have v: "status_value (status_annotate 10000000000 default_cutoff ten_of_eleven (example_check 11)) = Some ''good''"
    by (simp add: status_value_eq classify_Some p s)
  have p': "pings (status_annotate 10000000000 default_cutoff scenario_B (example_check 11)) = 10"
    by (simp add: pings_eq scenario_B_def example_defs)
  have s': "successes (status_annotate 10000000000 default_cutoff scenario_B (example_check 11)) = 9"
    by (simp add: successes_eq spec_success_def scenario_B_def example_defs)
  have r': "success_rate (status_annotate 10000000000 default_cutoff scenario_B (example_check 11)) = Some 90"
    by (simp add: rate_eq p' s')
  have v': "status_value (status_annotate 10000000000 default_cutoff scenario_B (example_check 11)) = Some ''fair''"
    by (simp add: status_value_eq classify_Some p' s')
  from p s r v p' s' r' v' show ?thesis by blast
qed

subsection \<open>C2: what is counted\<close>

text \<open>
  C2 as the spec states it bounds the window at \<open>now\<close>. The source only tests
  \<open>checked_on >= start_time\<close>: a single successful result one microsecond later than \<open>now\<close>
  is counted by \<open>status\<close> and is outside the spec's window.
\<close>

theorem status_counts_result_after_now_counterexample:
  "pings (status_annotate 10000000000 3600000000
            [probe_result 11 10000000001 (Some 200)] (example_check 11)) = 1 \<and>
   spec_pings 10000000000 3600000000
            [probe_result 11 10000000001 (Some 200)] (example_check 11) = 0"
  by (simp add: pings_eq spec_pings_def spec_in_window_def example_defs)

text \<open>
  C2, amended. \<open>pings\<close> is the number of the check's results with \<open>checked_on\<close> at or after
  \<open>now - cutoff\<close>, whatever their outcome and with no upper bound on \<open>checked_on\<close>;
  \<open>successes\<close> is the number of those whose status code is present and lies in 200..299
  (a result without status code is a ping and never a success).
\<close>

theorem status_counts_from_start_time:
  "pings (status_annotate now cutoff results c) =
     length (filter (\<lambda>r. now - cutoff \<le> checked_on r) (results_of results c)) \<and>
   successes (status_annotate now cutoff results c) =
     length (filter (\<lambda>r. now - cutoff \<le> checked_on r \<and> spec_success r) (results_of results c))"
  by (simp add: pings_eq successes_eq)

text \<open>Of the six results of \<open>mixed_results\<close>, four are pings of check 11 (the one at the
  start of the window, the failure, the 404 and the one later than \<open>now\<close>) and two of
  these are successes.\<close>

theorem status_counts_from_start_time_witness:
  "pings (status_annotate 10000000000 3600000000 mixed_results (example_check 11)) = 4 \<and>
   successes (status_annotate 10000000000 3600000000 mixed_results (example_check 11)) = 2"
  using status_counts_from_start_time[of 10000000000 3600000000 mixed_results "example_check 11"]
  by (simp add: mixed_results_def example_defs spec_success_def)

subsection \<open>C3: no result in the window\<close>

text \<open>
  C3 as the spec states it is about the checks with no result in the window
  \<open>[now - window, now]\<close>. A check whose only result is later than \<open>now\<close> is one of them,
  and \<open>status\<close> counts that result: the check has one ping and is \<open>good\<close>, not \<open>unknown\<close>.
\<close>

theorem status_only_result_after_now_counterexample:
  "spec_pings 10000000000 3600000000
     [probe_result 11 10000000001 (Some 200)] (example_check 11) = 0 \<and>
   success_rate (status_annotate 10000000000 3600000000
     [probe_result 11 10000000001 (Some 200)] (example_check 11)) = Some 100 \<and>
   status_value (status_annotate 10000000000 3600000000
     [probe_result 11 10000000001 (Some 200)] (example_check 11)) = Some ''good''"
proof -
  have p: "pings (status_annotate 10000000000 3600000000
     [probe_result 11 10000000001 (Some 200)] (example_check 11)) = Suc 0"
    by (simp add: pings_eq example_defs)
  have s: "successes (status_annotate 10000000000 3600000000
     [probe_result 11 10000000001 (Some 200)] (example_check 11)) = Suc 0"
    by (simp add: successes_eq spec_success_def example_defs)
  have "spec_pings 10000000000 3600000000
     [probe_result 11 10000000001 (Some 200)] (example_check 11) = 0"
    by (simp add: spec_pings_def spec_in_window_def example_defs)
  moreover have "success_rate (status_annotate 10000000000 3600000000
     [probe_result 11 10000000001 (Some 200)] (example_check 11)) = Some 100"
    by (simp add: rate_eq p s)
  moreover have "status_value (status_annotate 10000000000 3600000000
     [probe_result 11 10000000001 (Some 200)] (example_check 11)) = Some ''good''"
    by (simp add: status_value_eq classify_Some p s)
  ultimately show ?thesis by blast
qed

text \<open>
  C3, amended. For a check all of whose results are earlier than the start of the window
  (it has no result later than \<open>now\<close> either), \<open>status\<close> has \<open>pings = 0\<close>, a NULL success
  rate and the classification \<open>unknown\<close>. (The query has no other way to fail than the
  division, whose value at a zero divisor is modelled from the spec.)
\<close>

theorem status_without_pings_is_unknown:
  assumes "\<forall>r\<in>set (results_of results c). checked_on r < now - cutoff"
  shows "pings (status_annotate now cutoff results c) = 0 \<and>
         success_rate (status_annotate now cutoff results c) = None \<and>
         status_value (status_annotate now cutoff results c) = Some ''unknown''"
proof -
  from assms have "filter (\<lambda>r. now - cutoff \<le> checked_on r) (results_of results c) = []"
    by (auto simp: filter_empty_conv)
  then have "pings (status_annotate now cutoff results c) = 0"
    by (simp add: pings_eq)
  then show ?thesis
    by (simp add: rate_eq status_value_eq classify_None)
qed

text \<open>The spec's Scenario C (no result at all), a check whose results are all older than
  the window, and a check the table has no result for.\<close>

theorem status_without_pings_is_unknown_witness:
  "success_rate (status_annotate 10000000000 default_cutoff [] (example_check 11)) = None \<and>
   status_value (status_annotate 10000000000 default_cutoff [] (example_check 11)) = Some ''unknown'' \<and>
   status_value (status_annotate 10000000000 default_cutoff old_results (example_check 11)) = Some ''unknown'' \<and>
   status_value (status_annotate 10000000000 default_cutoff mixed_results (example_check 13)) = Some ''unknown''"
  using status_without_pings_is_unknown[of "[]" "example_check 11" 10000000000 default_cutoff]
    status_without_pings_is_unknown[of old_results "example_check 11" 10000000000 default_cutoff]
    status_without_pings_is_unknown[of mixed_results "example_check 13" 10000000000 default_cutoff]
  by (simp add: mixed_results_def old_results_def example_defs)

subsection \<open>C4: staleness\<close>

text \<open>
  C4. \<open>stale\<close>, for any cutoff and so for the default of one hour, returns exactly the
  checks of the queryset that have no result at all (\<open>last_check\<close> is NULL) or whose
  latest result is strictly earlier than \<open>now - cutoff\<close>; in particular every check of
  the queryset without a recorded result is returned.
\<close>

theorem stale_iff_no_result_or_last_check_before_cutoff:
  "obj ` set (stale now cutoff results self) =
     {c \<in> set self. results_of results c = [] \<or>
                     Max (checked_on ` set (results_of results c)) < now - cutoff} \<and>
   (c \<in> set self \<and> results_of results c = [] \<longrightarrow> c \<in> obj ` set (stale now cutoff results self))"
proof -
  have "obj ` set (stale now cutoff results self) =
     {c \<in> set self. results_of results c = [] \<or>
                     Max (checked_on ` set (results_of results c)) < now - cutoff}"
    unfolding stale_rows by force
  then show ?thesis by simp
qed

text \<open>With the default cutoff at \<open>now = 10000000000\<close>: check 11, last probed one
  microsecond before \<open>now - cutoff\<close>, and check 13, never probed, are stale; check 12,
  last probed exactly at \<open>now - cutoff\<close>, is not.\<close>

theorem stale_iff_no_result_or_last_check_before_cutoff_witness:
  "default_cutoff = 3600000000 \<and>
   example_check 13 \<in> obj ` set (stale 10000000000 default_cutoff old_results three_checks) \<and>
   map obj (stale 10000000000 default_cutoff old_results three_checks) =
     [example_check 11, example_check 13]"
proof -
  have l: "stale 10000000000 default_cutoff old_results three_checks =
     [\<lparr>obj = example_check 11, last_check = Some 6399999999\<rparr>,
      \<lparr>obj = example_check 13, last_check = None\<rparr>]"
    by (simp add: stale_def Let_def stale_filter_eq join_max three_checks_def old_results_def example_defs)
  have h: "example_check 13 \<in> set three_checks \<and> results_of old_results (example_check 13) = []"
    by (simp add: three_checks_def old_results_def example_defs)
  from stale_iff_no_result_or_last_check_before_cutoff
         [of 10000000000 default_cutoff old_results three_checks "example_check 13"] h
  have "example_check 13 \<in> obj ` set (stale 10000000000 default_cutoff old_results three_checks)"
    by blast
  moreover have "default_cutoff = 3600000000"
    by (simp add: default_cutoff_def timedelta_hours_def)
  ultimately show ?thesis
    by (simp add: l)
qed

subsection \<open>C5: range of the success rate\<close>

text \<open>
  C5. For every window and check, \<open>successes\<close> is at most \<open>pings\<close>, the success rate is
  NULL exactly when \<open>pings = 0\<close>, and a success rate that is not NULL lies between 0 and
  100, both included.
\<close>

theorem success_rate_between_0_and_100:
  "successes (status_annotate now cutoff results c) \<le> pings (status_annotate now cutoff results c) \<and>
   (success_rate (status_annotate now cutoff results c) = None \<longleftrightarrow>
      pings (status_annotate now cutoff results c) = 0) \<and>
   (\<forall>rate. success_rate (status_annotate now cutoff results c) = Some rate \<longrightarrow> 0 \<le> rate \<and> rate \<le> 100)"
proof -
  let ?s = "successes (status_annotate now cutoff results c)"
  let ?p = "pings (status_annotate now cutoff results c)"
  have le: "?s \<le> ?p" by (rule successes_le_pings)
  have "?s * 100 div ?p \<le> 100" if "?p \<noteq> 0"
  proof -
    from le have "?s * 100 div ?p \<le> ?p * 100 div ?p"
      by (intro div_le_mono) simp
    with that show ?thesis by simp
  qed
  then show ?thesis
    using le by (auto simp: rate_eq split: if_splits)
qed

theorem success_rate_between_0_and_100_witness:
  "success_rate (status_annotate 10000000000 3600000000 mixed_results (example_check 11)) = Some 50 \<and>
   success_rate (status_annotate 10000000000 3600000000 mixed_results (example_check 12)) = Some 100 \<and>
   success_rate (status_annotate 10000000000 3600000000 mixed_results (example_check 13)) = None"
  using success_rate_between_0_and_100[of 10000000000 3600000000 mixed_results "example_check 11"]
    success_rate_between_0_and_100[of 10000000000 3600000000 mixed_results "example_check 12"]
    success_rate_between_0_and_100[of 10000000000 3600000000 mixed_results "example_check 13"]
  by (simp add: rate_eq pings_eq successes_eq spec_success_def mixed_results_def example_defs)

subsection \<open>C6: the target URL\<close>

text \<open>
  C6. \<open>url\<close> never fails and is the protocol, then \<open>://\<close>, then the domain, then the path,
  with nothing inserted and no character of the three fields altered (also when a field
  itself contains braces).
\<close>

theorem url_is_concatenation:
  "url self = Inr (protocol self @ ''://'' @ domain self @ path self)"
  by (simp add: url_def str_format_def emit_Inr)

theorem url_is_concatenation_witness:
  "url (example_check 11) = Inr ''https://example.com/health''"
  using url_is_concatenation[of "example_check 11"]
  by (simp add: example_check_def)

subsection \<open>C7: the active checks\<close>

text \<open>
  C7. \<open>active\<close> returns exactly the checks of the queryset whose \<open>is_active\<close> is true: every
  returned check is active and no active check is left out. Called on the manager it
  ranges over all stored checks and leaves the stored checks and results as they were.
\<close>

theorem active_returns_exactly_the_active_checks:
  "(\<forall>c. c \<in> set (active self) \<longleftrightarrow> c \<in> set self \<and> is_active c) \<and>
   fst (objects_active db) = active (domainchecks db) \<and>
   snd (objects_active db) = db"
  by (simp add: active_def objects_active_def)

theorem active_returns_exactly_the_active_checks_witness:
  "fst (objects_active \<lparr>domainchecks = [example_check 11, (example_check 12)\<lparr>is_active := False\<rparr>, example_check 13],
                        checkresults = old_results\<rparr>) = [example_check 11, example_check 13] \<and>
   snd (objects_active \<lparr>domainchecks = [example_check 11, (example_check 12)\<lparr>is_active := False\<rparr>, example_check 13],
                        checkresults = old_results\<rparr>) =
     \<lparr>domainchecks = [example_check 11, (example_check 12)\<lparr>is_active := False\<rparr>, example_check 13],
      checkresults = old_results\<rparr>"
  using active_returns_exactly_the_active_checks
    [of "[example_check 11, (example_check 12)\<lparr>is_active := False\<rparr>, example_check 13]"
        "\<lparr>domainchecks = [example_check 11, (example_check 12)\<lparr>is_active := False\<rparr>, example_check 13],
          checkresults = old_results\<rparr>"]
  by (simp add: active_def example_check_def)

subsection \<open>C9: \<open>last_check\<close> ranges over all results\<close>

text \<open>
  C9. In \<open>status\<close> and in \<open>stale\<close> alike, \<open>last_check\<close> is the latest \<open>checked_on\<close> among all
  results of the check, whatever the cutoff, and NULL only when the check has no result:
  a check whose results are all older than the window has \<open>pings = 0\<close> and still their
  latest timestamp as \<open>last_check\<close>.
\<close>

theorem last_check_is_over_all_results:
  "last_check (status_annotate now cutoff results c) =
     (if results_of results c = [] then None
      else Some (Max (checked_on ` set (results_of results c)))) \<and>
   (\<forall>a\<in>set (stale now cutoff' results self).
      last_check a =
        (if results_of results (obj a) = [] then None
         else Some (Max (checked_on ` set (results_of results (obj a))))))"
  by (auto simp: last_check_eq stale_rows join_max)

theorem last_check_is_over_all_results_witness:
  "pings (status_annotate 10000000000 default_cutoff old_results (example_check 11)) = 0 \<and>
   last_check (status_annotate 10000000000 default_cutoff old_results (example_check 11)) = Some 6399999999 \<and>
   stale 10000000000 default_cutoff old_results [example_check 11] =
     [\<lparr>obj = example_check 11, last_check = Some 6399999999\<rparr>]"
  using last_check_is_over_all_results
    [of 10000000000 default_cutoff old_results "example_check 11" default_cutoff "[example_check 11]"]
  by (simp add: pings_eq stale_def stale_filter_eq join_max old_results_def example_defs)

subsection \<open>C10: field defaults\<close>

text \<open>
  C10. A \<open>DomainCheck\<close> constructed from a domain and a path only has protocol \<open>http\<close>,
  method \<open>get\<close> and \<open>is_active\<close> true, keeps the domain and the path it was given, and is
  among the checks \<open>active\<close> returns from any queryset that holds it.
\<close>

theorem DomainCheck_field_defaults:
  "protocol (DomainCheck_init i d p None None None) = ''http'' \<and>
   http_method (DomainCheck_init i d p None None None) = ''get'' \<and>
   is_active (DomainCheck_init i d p None None None) = True \<and>
   domain (DomainCheck_init i d p None None None) = d \<and>
   path (DomainCheck_init i d p None None None) = p \<and>
   (DomainCheck_init i d p None None None \<in> set self \<longrightarrow>
      DomainCheck_init i d p None None None \<in> set (active self))"
  by (simp add: DomainCheck_init_def PROTOCOL_HTTP_def METHOD_GET_def active_def)

theorem DomainCheck_field_defaults_witness:
  "fst (objects_active \<lparr>domainchecks = [(example_check 12)\<lparr>is_active := False\<rparr>,
                                         DomainCheck_init 14 ''example.org'' ''/'' None None None],
                        checkresults = []\<rparr>) =
     [\<lparr>pk = 14, domain = ''example.org'', path = ''/'', protocol = ''http'', http_method = ''get'', is_active = True\<rparr>]"
  using DomainCheck_field_defaults[of 14 "''example.org''" "''/''" "[(example_check 12)\<lparr>is_active := False\<rparr>,
                                         DomainCheck_init 14 ''example.org'' ''/'' None None None]"]
  by (simp add: objects_active_def active_def example_check_def DomainCheck_init_def PROTOCOL_HTTP_def METHOD_GET_def)

end
